theory Spec2Isabelle
  imports Main "HOL-Library.Word" "HOL-Library.Sublist"
begin

section \<open>The test runner: running a test and reporting its results\<close>

text \<open>
  The class \<open>TestRunner\<close> talks to three collaborators: the output channel with its logger,
  the editor (saving files, error pop-ups, commands) and the OmniSharp server. What the
  runner does to them is recorded as a list of effects, in the order the calls are made.
  What they answer is given to the model as an environment, so that every resolved,
  rejected or never-settled promise of the source is a branch of the model.
\<close>

subsection \<open>Numbers in template strings\<close>

definition digit :: "nat \<Rightarrow> char" where
  "digit d = char_of (48 + d)"

function toString_nat :: "nat \<Rightarrow> string" where
  "toString_nat n = (if n < 10 then [digit n] else toString_nat (n div 10) @ [digit (n mod 10)])"
  by pat_completeness auto
termination
  by (relation "measure id") auto

declare toString_nat.simps [simp del]

definition toString_int :: "int \<Rightarrow> string" where
  "toString_int i = (if i < 0 then CHR ''-'' # toString_nat (nat (- i)) else toString_nat (nat i))"

text \<open>Reading a numeral back: the number that a nonempty string of decimal digits
  denotes.\<close>

fun decimalFrom :: "nat \<Rightarrow> string \<Rightarrow> nat option" where
  "decimalFrom acc [] = Some acc"
| "decimalFrom acc (c # cs) =
     (if 48 \<le> (of_char c :: nat) \<and> (of_char c :: nat) < 58
      then decimalFrom (10 * acc + ((of_char c :: nat) - 48)) cs
      else None)"

definition decimal :: "string \<Rightarrow> nat option" where
  "decimal s = (if s = [] then None else decimalFrom 0 s)"

subsection \<open>Protocol values\<close>

text \<open>
  Modelled from the spec: the outcome tags of \<open>protocol.V2.TestOutcomes\<close> (the file
  \<open>omnisharp/protocol\<close> is not among the sources). The spec names the three tags
  Passed, Failed and Skipped; a result's \<open>Outcome\<close> is a string, so any other text is a
  possible tag too.
\<close>

definition TestOutcomes_Passed :: string where
  "TestOutcomes_Passed = ''Passed''"

definition TestOutcomes_Failed :: string where
  "TestOutcomes_Failed = ''Failed''"

definition TestOutcomes_Skipped :: string where
  "TestOutcomes_Skipped = ''Skipped''"

record DotNetTestResult =
  Outcome :: string

text \<open>The requests \<open>RunTestRequest\<close>, \<open>GetTestStartInfoRequest\<close> and
  \<open>DebugTestGetStartInfoRequest\<close> are built with the same three properties.\<close>

record Request =
  FileName :: string
  MethodName :: string
  TestFrameworkName :: string

text \<open>The two start-info responses, with their properties in the order
  \<open>Executable, Argument, WorkingDirectory\<close> and \<open>FileName, Arguments, WorkingDirectory\<close>.\<close>

datatype GetTestStartInfoResponse = GetTestStartInfoResponse string string string

datatype DebugTestGetStartInfoResponse = DebugTestGetStartInfoResponse string string string

text \<open>The project information: each of the two properties holds a project (here its path)
  or is absent, and the source tests them for truthiness.\<close>

record ProjectInformationResponse =
  MsBuildProject :: "string option"
  DotNetProject :: "string option"

text \<open>What a promise of a collaborator does: it stays pending, rejects with a reason, or
  resolves with a value.\<close>

datatype 'a response = Hangs | Fails string | Returns 'a

text \<open>Values of a launch configuration, and an object as the list of its properties.\<close>

datatype json = JNull | JStr string | JNum int | JBool bool

type_synonym object = "(string \<times> json) list"

fun setProperty :: "string \<Rightarrow> json \<Rightarrow> object \<Rightarrow> object" where
  "setProperty k v [] = [(k, v)]"
| "setProperty k v ((k', v') # ps) =
     (if k' = k then (k, v) # ps else (k', v') # setProperty k v ps)"

text \<open>The workspace setting \<open>csharp.unitTestDebugingOptions\<close>: \<open>typeof\<close> gives
  \<open>"object"\<close> for an object and for \<open>null\<close>, and something else for a missing
  setting, a string, a number or a boolean. An array as the value of the setting is left
  out of the model.\<close>

datatype debugOptions = NotAnObject | NullValue | Object object

subsection \<open>Effects\<close>

datatype effect =
    ShowChannel
  | AppendLine string
  | SubscribeToTestMessages
  | DisposeTestMessages
  | SaveAll
  | RunTest Request
  | RequestProjectInformation string
  | NewDebugEventListener string
  | StartDebugEventListener
  | CloseDebugEventListener
  | GetTestStartInfo Request
  | DebugTestGetStartInfo Request
  | StartDebug object
  | ShowErrorMessage string

text \<open>The lines the logger was given, in order (\<open>appendLine()\<close> without a message gives
  the empty line).\<close>

definition logLines :: "effect list \<Rightarrow> string list" where
  "logLines es = concat (map (\<lambda>e. case e of AppendLine s \<Rightarrow> [s] | _ \<Rightarrow> []) es)"

text \<open>Modelled from the spec: the logger (\<open>../logger\<close> is not among the sources) writes
  each appended line to the output surface, ended by a line feed.\<close>

definition logOutput :: "effect list \<Rightarrow> string" where
  "logOutput es = concat (map (\<lambda>l. l @ [CHR 0x0A]) (logLines es))"

text \<open>The answers of the collaborators during one call of \<open>runTest\<close> or \<open>debugTest\<close>.\<close>

record Environment =
  saveAll :: "bool response"
  testMessages :: "string list"
  runTestResponse :: "DotNetTestResult list response"
  projectInformation :: "ProjectInformationResponse response"
  listenerStart :: "unit response"
  pipePath :: string
  getTestStartInfo :: "GetTestStartInfoResponse response"
  debugTestGetStartInfo :: "DebugTestGetStartInfoResponse response"
  unitTestDebugingOptions :: debugOptions
  startDebug :: "unit response"

subsection \<open>\<open>_reportResults\<close>\<close>

text \<open>The loop over the results with its three counters \<open>(totalPassed, totalFailed,
  totalSkipped)\<close>; the \<open>switch\<close> tests the cases in the order Failed, Passed, Skipped and a
  tag that matches none of them changes no counter.\<close>

fun countOutcomes :: "DotNetTestResult list \<Rightarrow> nat \<times> nat \<times> nat \<Rightarrow> nat \<times> nat \<times> nat" where
  "countOutcomes [] acc = acc"
| "countOutcomes (r # rs) (totalPassed, totalFailed, totalSkipped) =
     countOutcomes rs
       (if Outcome r = TestOutcomes_Failed then (totalPassed, totalFailed + 1, totalSkipped)
        else if Outcome r = TestOutcomes_Passed then (totalPassed + 1, totalFailed, totalSkipped)
        else if Outcome r = TestOutcomes_Skipped then (totalPassed, totalFailed, totalSkipped + 1)
        else (totalPassed, totalFailed, totalSkipped))"

definition reportResults :: "DotNetTestResult list \<Rightarrow> effect list" where
  "reportResults results =
     (let totalTests = length results;
          (totalPassed, totalFailed, totalSkipped) = countOutcomes results (0, 0, 0)
      in [AppendLine '''',
          AppendLine (''Total tests: '' @ toString_nat totalTests
                      @ ''. Passed: '' @ toString_nat totalPassed
                      @ ''. Failed: '' @ toString_nat totalFailed
                      @ ''. Skipped: '' @ toString_nat totalSkipped),
          AppendLine ''''])"

subsection \<open>\<open>runTest\<close>\<close>

text \<open>While the runner is subscribed, the test messages of the server go to the log; the
  model delivers them while the request is in flight.\<close>

definition runTest_catch :: "string \<Rightarrow> effect list" where
  "runTest_catch reason =
     [DisposeTestMessages, ShowErrorMessage (''Failed to run test because '' @ reason @ ''.'')]"

definition runTest :: "Environment \<Rightarrow> string \<Rightarrow> string \<Rightarrow> string \<Rightarrow> effect list" where
  "runTest env testMethod fileName testFrameworkName =
     [ShowChannel, AppendLine (''Running test '' @ testMethod @ ''...''), AppendLine '''',
      SubscribeToTestMessages, SaveAll] @
     (case saveAll env of
        Hangs \<Rightarrow> []
      | Fails reason \<Rightarrow> runTest_catch reason
      | Returns _ \<Rightarrow>
          [RunTest \<lparr>FileName = fileName, MethodName = testMethod,
                    TestFrameworkName = testFrameworkName\<rparr>] @
          map AppendLine (testMessages env) @
          (case runTestResponse env of
             Hangs \<Rightarrow> []
           | Fails reason \<Rightarrow> runTest_catch reason
           | Returns results \<Rightarrow> reportResults results @ [DisposeTestMessages]))"

subsection \<open>\<open>debugTest\<close>\<close>

text \<open>\<open>_createLaunchConfiguration\<close>: the options of the workspace setting are cloned when
  they are an object; assigning the first property to the clone of \<open>null\<close> throws, which is
  the result \<open>None\<close>.\<close>

definition createLaunchConfiguration ::
  "debugOptions \<Rightarrow> string \<Rightarrow> string \<Rightarrow> string \<Rightarrow> json \<Rightarrow> object option" where
  "createLaunchConfiguration debugOptions program args cwd debuggerEventsPipeName =
     (case (case debugOptions of Object opts \<Rightarrow> Some opts | NullValue \<Rightarrow> None
                               | NotAnObject \<Rightarrow> Some []) of
        None \<Rightarrow> None
      | Some result \<Rightarrow>
          Some (setProperty ''cwd'' (JStr cwd)
               (setProperty ''args'' (JStr args)
               (setProperty ''program'' (JStr program)
               (setProperty ''debuggerEventsPipeName'' debuggerEventsPipeName
               (setProperty ''request'' (JStr ''launch'')
               (setProperty ''type'' (JStr ''coreclr'')
               (setProperty ''name'' (JStr ''.NET Test Launch'') result))))))))"

text \<open>The \<open>catch\<close> at the end of \<open>debugTest\<close>; the flag says whether
  \<open>debugEventListener\<close> is set.\<close>

definition debugTest_catch :: "string \<Rightarrow> bool \<Rightarrow> effect list" where
  "debugTest_catch reason hasListener =
     ShowErrorMessage (''Failed to start debugger: '' @ reason) #
     (if hasListener then [CloseDebugEventListener] else [])"

text \<open>The last step of the chain: the configuration goes to \<open>vscode.startDebug\<close>.\<close>

definition launch :: "Environment \<Rightarrow> object option \<Rightarrow> bool \<Rightarrow> effect list" where
  "launch env config hasListener =
     (case config of
        None \<Rightarrow> debugTest_catch ''TypeError: Cannot set property 'name' of null'' hasListener
      | Some c \<Rightarrow>
          StartDebug c #
          (case startDebug env of
             Fails reason \<Rightarrow> debugTest_catch reason hasListener
           | _ \<Rightarrow> []))"

definition getLaunchConfigurationForLegacy ::
  "Environment \<Rightarrow> string \<Rightarrow> string \<Rightarrow> string \<Rightarrow> bool \<Rightarrow> effect list" where
  "getLaunchConfigurationForLegacy env fileName testMethod testFrameworkName hasListener =
     [SubscribeToTestMessages,
      GetTestStartInfo \<lparr>FileName = fileName, MethodName = testMethod,
                        TestFrameworkName = testFrameworkName\<rparr>] @
     map AppendLine (testMessages env) @
     (case getTestStartInfo env of
        Hangs \<Rightarrow> []
      | Fails reason \<Rightarrow> debugTest_catch reason hasListener
      | Returns (GetTestStartInfoResponse executable argument workingDirectory) \<Rightarrow>
          DisposeTestMessages #
          launch env (createLaunchConfiguration (unitTestDebugingOptions env)
                        executable argument workingDirectory JNull) hasListener)"

definition getLaunchConfigurationForVSTest ::
  "Environment \<Rightarrow> string \<Rightarrow> string \<Rightarrow> string \<Rightarrow> bool \<Rightarrow> effect list" where
  "getLaunchConfigurationForVSTest env fileName testMethod testFrameworkName hasListener =
     [SubscribeToTestMessages,
      DebugTestGetStartInfo \<lparr>FileName = fileName, MethodName = testMethod,
                             TestFrameworkName = testFrameworkName\<rparr>] @
     map AppendLine (testMessages env) @
     (case debugTestGetStartInfo env of
        Hangs \<Rightarrow> []
      | Fails reason \<Rightarrow> debugTest_catch reason hasListener
      | Returns (DebugTestGetStartInfoResponse fileName' arguments workingDirectory) \<Rightarrow>
          DisposeTestMessages #
          launch env (createLaunchConfiguration (unitTestDebugingOptions env)
                        fileName' arguments workingDirectory (JStr (pipePath env))) hasListener)"

definition getLaunchConfiguration ::
  "Environment \<Rightarrow> string \<Rightarrow> string \<Rightarrow> string \<Rightarrow> string \<Rightarrow> bool \<Rightarrow> effect list" where
  "getLaunchConfiguration env debugType fileName testMethod testFrameworkName hasListener =
     (if debugType = ''legacy''
      then getLaunchConfigurationForLegacy env fileName testMethod testFrameworkName hasListener
      else if debugType = ''vstest''
      then getLaunchConfigurationForVSTest env fileName testMethod testFrameworkName hasListener
      else debugTest_catch (''Error: Unexpected debug type: '' @ debugType) hasListener)"

definition debugTest :: "Environment \<Rightarrow> string \<Rightarrow> string \<Rightarrow> string \<Rightarrow> effect list" where
  "debugTest env testMethod fileName testFrameworkName =
     [ShowChannel,
      AppendLine (''Debugging method '' @ [CHR 0x27] @ testMethod @ [CHR 0x27] @ ''...''),
      AppendLine '''', SaveAll] @
     (case saveAll env of
        Hangs \<Rightarrow> []
      | Fails reason \<Rightarrow> debugTest_catch reason False
      | Returns _ \<Rightarrow>
          RequestProjectInformation fileName #
          (case projectInformation env of
             Hangs \<Rightarrow> []
           | Fails reason \<Rightarrow> debugTest_catch reason False
           | Returns projectInfo \<Rightarrow>
               if DotNetProject projectInfo \<noteq> None then
                 getLaunchConfiguration env ''legacy'' fileName testMethod testFrameworkName False
               else if MsBuildProject projectInfo \<noteq> None then
                 [NewDebugEventListener fileName, StartDebugEventListener] @
                 (case listenerStart env of
                    Hangs \<Rightarrow> []
                  | Fails reason \<Rightarrow> debugTest_catch reason True
                  | Returns _ \<Rightarrow>
                      getLaunchConfiguration env ''vstest'' fileName testMethod
                        testFrameworkName True)
               else
                 debugTest_catch ''Error: Expected project.json or .csproj project.'' False))"

text \<open>A stub of the collaborators that answers every request: the server returns the given
  results and project information, the editor saves and launches without error.\<close>

definition stubEnvironment ::
  "DotNetTestResult list \<Rightarrow> ProjectInformationResponse \<Rightarrow> Environment" where
  "stubEnvironment results projectInfo =
     \<lparr>saveAll = Returns True, testMessages = [], runTestResponse = Returns results,
      projectInformation = Returns projectInfo, listenerStart = Returns (),
      pipePath = ''/ext/.TestDebugEvents-1'',
      getTestStartInfo = Returns (GetTestStartInfoResponse ''dotnet'' ''test'' ''/work''),
      debugTestGetStartInfo =
        Returns (DebugTestGetStartInfoResponse ''dotnet'' ''vstest'' ''/work''),
      unitTestDebugingOptions = NotAnObject, startDebug = Returns ()\<rparr>"

section \<open>The debugger event listener\<close>

text \<open>
  The file of the listener holds two listings of the class \<open>DebugEventListener\<close>. In the
  first, listeners are kept on an event bus, \<open>close\<close> returns a promise and the steps of
  \<open>start\<close> are chained with \<open>then\<close>. In the second, which is also the class at the end
  of the test runner's older file, the channel itself sends the requests to the server,
  \<open>close\<close> is synchronous and the handlers of a socket are arrow functions written inside
  \<open>start\<close>. Both have the fields \<open>_serverSocket\<close> and \<open>_isClosed\<close> and the static
  \<open>s_activeInstance\<close>; \<open>_eventBus\<close> is a field of the first listing and \<open>_fileName\<close>
  (here \<open>listenerFileName\<close>) one of the second.

  The instances live in a world that also holds the static slot, the lines given to the
  logger, the calls made to registered listeners, what was sent to the server, and the
  calls of \<open>server.close\<close> that the server has not completed yet.

  A listener is an opaque callback that returns normally and does not call back into the
  channel; it is known by its identity.
\<close>

subsection \<open>Events and packets\<close>

type_synonym byte = "8 word"

text \<open>An event as the \<open>switch\<close> of the data handler sees it: one of the two event types
  with a case, or any other event type.\<close>

datatype DebuggerEvent = ProcessLaunchedEvent int | DebuggingStoppedEvent | OtherEvent

text \<open>A little-endian 32-bit field at the start of a buffer, if the buffer is long enough,
  read as an unsigned number; and the same 32 bits read as a signed integer.\<close>

fun readUInt32LE :: "byte list \<Rightarrow> nat option" where
  "readUInt32LE (b0 # b1 # b2 # b3 # _) =
     Some (unat b0 + 256 * unat b1 + 65536 * unat b2 + 16777216 * unat b3)"
| "readUInt32LE _ = None"

definition toInt32 :: "nat \<Rightarrow> int" where
  "toInt32 n = (if n < 2147483648 then int n else int n - 4294967296)"

text \<open>
  Modelled from the spec: \<open>decodePacket\<close> (the file \<open>coreclr-debug/debuggerEventsProtocol\<close>
  is not among the sources). A frame starts with a 4-byte little-endian event type code,
  0 for ProcessLaunched and 1 for DebuggingStopped; the payload of ProcessLaunched is a
  4-byte little-endian signed integer, that of DebuggingStopped is empty and bytes after
  the frame are not looked at. A buffer that is too short or has another code fails to
  decode: the exception MalformedPacket is the result \<open>None\<close>.
\<close>

definition decodePacket :: "byte list \<Rightarrow> DebuggerEvent option" where
  "decodePacket packet =
     (case readUInt32LE packet of
        None \<Rightarrow> None
      | Some code \<Rightarrow>
          if code = 0 then
            (case readUInt32LE (drop 4 packet) of
               None \<Rightarrow> None
             | Some targetProcessId \<Rightarrow> Some (ProcessLaunchedEvent (toInt32 targetProcessId)))
          else if code = 1 then Some DebuggingStoppedEvent
          else None)"

subsection \<open>The state\<close>

datatype EventType = ProcessLaunched | DebuggingStopped

text \<open>A value handed to a listener: a number or an array of values.\<close>

datatype jsvalue = Number int | Array "jsvalue list"

type_synonym callback = nat

text \<open>The field \<open>_serverSocket\<close>: not assigned yet, \<open>null\<close>, or a server.\<close>

datatype socketRef = Undefined | Null | Server

text \<open>What the second listing sends to the server: the subscription to test messages, and
  the requests \<open>DebugTestLaunchRequest\<close> (\<open>FileName\<close>, \<open>TargetProcessId\<close>) and
  \<open>DebugTestStopRequest\<close> (\<open>FileName\<close>).\<close>

datatype upstream = OnTestMessage | DebugTestLaunch string int | DebugTestStop string

record DebugEventListener =
  listenerFileName :: string
  eventBus :: "(EventType \<times> callback) list"
  serverSocket :: socketRef
  isClosed :: bool

record World =
  s_activeInstance :: "nat option"
  instances :: "nat \<Rightarrow> DebugEventListener"
  logger :: "string list"
  invoked :: "(callback \<times> jsvalue list) list"
  sent :: "upstream list"
  closing :: "nat list"

text \<open>The constructor leaves \<open>_serverSocket\<close> unassigned and \<open>_isClosed\<close> false; that of
  the second listing stores the file name it is given.\<close>

definition newListener :: DebugEventListener where
  "newListener = \<lparr>listenerFileName = [], eventBus = [], serverSocket = Undefined, isClosed = False\<rparr>"

definition initialWorld :: World where
  "initialWorld = \<lparr>s_activeInstance = None, instances = (\<lambda>_. newListener), logger = [],
     invoked = [], sent = [], closing = []\<rparr>"

text \<open>Modelled from the spec: the logger (\<open>../logger\<close> is not among the sources) is the
  log surface of the channel; \<open>appendLine\<close> adds one line to it.\<close>

definition appendLine :: "string \<Rightarrow> World \<Rightarrow> World" where
  "appendLine s w = w\<lparr>logger := logger w @ [s]\<rparr>"

definition updateInstance ::
  "nat \<Rightarrow> (DebugEventListener \<Rightarrow> DebugEventListener) \<Rightarrow> World \<Rightarrow> World" where
  "updateInstance this f w = w\<lparr>instances := (instances w)(this := f (instances w this))\<rparr>"

definition construct2 :: "nat \<Rightarrow> string \<Rightarrow> World \<Rightarrow> World" where
  "construct2 this name w = updateInstance this (\<lambda>_. newListener\<lparr>listenerFileName := name\<rparr>) w"

subsection \<open>The event bus of the first listing\<close>

text \<open>Node's \<open>EventEmitter\<close>: \<open>addListener\<close> puts the listener at the end of the list,
  \<open>removeListener\<close> takes out the instance of the listener that was added last, and
  \<open>emit\<close> calls the listeners of the event in the order they were added, each with the
  arguments given to \<open>emit\<close>.\<close>

definition removeLast :: "'a \<Rightarrow> 'a list \<Rightarrow> 'a list" where
  "removeLast x xs = rev (remove1 x (rev xs))"

definition listenersOf :: "EventType \<Rightarrow> DebugEventListener \<Rightarrow> callback list" where
  "listenersOf event l = map snd (filter (\<lambda>(e, _). e = event) (eventBus l))"

definition emit :: "nat \<Rightarrow> EventType \<Rightarrow> jsvalue list \<Rightarrow> World \<Rightarrow> World" where
  "emit this event arguments w =
     w\<lparr>invoked := invoked w @ map (\<lambda>l. (l, arguments)) (listenersOf event (instances w this))\<rparr>"

text \<open>\<open>_addListener\<close> returns a disposable; \<open>dispose\<close> is what the disposable does.\<close>

definition addListener :: "nat \<Rightarrow> EventType \<Rightarrow> callback \<Rightarrow> World \<Rightarrow> World" where
  "addListener this event listener w =
     updateInstance this (\<lambda>l. l\<lparr>eventBus := eventBus l @ [(event, listener)]\<rparr>) w"

definition dispose :: "nat \<Rightarrow> EventType \<Rightarrow> callback \<Rightarrow> World \<Rightarrow> World" where
  "dispose this event listener w =
     updateInstance this (\<lambda>l. l\<lparr>eventBus := removeLast (event, listener) (eventBus l)\<rparr>) w"

text \<open>\<open>_fireEvent(event, ...args)\<close> collects its arguments after the event in the array
  \<open>args\<close> and calls \<open>emit(event, args)\<close>: the array is the one argument of \<open>emit\<close>.\<close>

definition fireEvent :: "nat \<Rightarrow> EventType \<Rightarrow> jsvalue list \<Rightarrow> World \<Rightarrow> World" where
  "fireEvent this event args w = emit this event [Array args] w"

definition onProcessLaunched :: "nat \<Rightarrow> callback \<Rightarrow> World \<Rightarrow> World" where
  "onProcessLaunched this listener w = addListener this ProcessLaunched listener w"

definition onDebuggingStopped :: "nat \<Rightarrow> callback \<Rightarrow> World \<Rightarrow> World" where
  "onDebuggingStopped this listener w = addListener this DebuggingStopped listener w"

subsection \<open>\<open>close\<close> in the first listing\<close>

text \<open>A promise: resolved, rejected with a reason, pending for good, or pending until the
  callback given to \<open>server.close\<close> by the named instance runs.\<close>

datatype reason = NoReason | Message string | TypeError

datatype promise = Resolved | Rejected reason | Pending | AwaitsClose nat

text \<open>
  \<open>close\<close> clears the static slot when it holds this instance and resolves at once when
  \<open>_isClosed\<close> is set. Otherwise the executor of the new promise runs: the test
  \<open>_serverSocket !== null\<close> holds for a server and for the unassigned field; calling
  \<open>close\<close> on the unassigned field throws, which rejects the promise; on a server the call
  registers the callback and returns.
\<close>

definition close :: "nat \<Rightarrow> World \<Rightarrow> promise \<times> World" where
  "close this w =
     (let w1 = (if s_activeInstance w = Some this then w\<lparr>s_activeInstance := None\<rparr> else w)
      in if isClosed (instances w1 this) then (Resolved, w1)
         else if serverSocket (instances w1 this) \<noteq> Null then
           (case serverSocket (instances w1 this) of
              Server \<Rightarrow> (AwaitsClose this, w1\<lparr>closing := closing w1 @ [this]\<rparr>)
            | _ \<Rightarrow> (Rejected TypeError, w1))
         else (Pending, w1))"

text \<open>The callback given to \<open>server.close\<close>, run by the server with its error, if any:
  \<open>if (!err) reject(err) else resolve()\<close>, then \<open>_isClosed = true\<close>. The result is
  the state of the promise that the call of \<open>close\<close> returned.\<close>

definition closeCallback :: "nat \<Rightarrow> string option \<Rightarrow> World \<Rightarrow> promise \<times> World" where
  "closeCallback this err w =
     (if err = None then Rejected NoReason else Resolved,
      (updateInstance this (\<lambda>l. l\<lparr>isClosed := True\<rparr>) w)\<lparr>closing := remove1 this (closing w)\<rparr>)"

text \<open>\<open>_onDebuggingStopped\<close>, called on a channel; the promise of \<open>close\<close> is dropped.\<close>

definition handleDebuggingStopped :: "nat \<Rightarrow> World \<Rightarrow> World" where
  "handleDebuggingStopped this w =
     (if isClosed (instances w this) then w
      else snd (close this (fireEvent this DebuggingStopped [] w)))"

subsection \<open>\<open>_configureSocket\<close> in the first listing\<close>

text \<open>
  \<open>start\<close> gives the server its connection listener with
  \<open>net.createServer(this._configureSocket)\<close>: the method is taken off the channel and
  handed over without its object. The server calls a listener with itself as \<open>this\<close>, and
  the arrow functions that \<open>_configureSocket\<close> registers on the socket take their \<open>this\<close>
  from that call. So what \<open>this\<close> is in the handlers is a parameter of their model: a
  channel, or the server of \<open>net\<close>, which has none of the channel's members. Reading
  \<open>appendLine\<close> off its missing \<open>_logger\<close> throws a TypeError, and so does calling its
  missing \<open>_fireEvent\<close> or \<open>_onDebuggingStopped\<close>. A handler that throws is the result
  \<open>Inl\<close>; the world is then as it was before the statement that threw.
\<close>

datatype receiver = Channel nat | NetServer

definition appendLineOn :: "receiver \<Rightarrow> string \<Rightarrow> World \<Rightarrow> reason + World" where
  "appendLineOn r s w = (case r of Channel _ \<Rightarrow> Inr (appendLine s w) | NetServer \<Rightarrow> Inl TypeError)"

definition fireEventOn ::
  "receiver \<Rightarrow> EventType \<Rightarrow> jsvalue list \<Rightarrow> World \<Rightarrow> reason + World" where
  "fireEventOn r event args w =
     (case r of Channel this \<Rightarrow> Inr (fireEvent this event args w) | NetServer \<Rightarrow> Inl TypeError)"

definition onDebuggingStoppedOn :: "receiver \<Rightarrow> World \<Rightarrow> reason + World" where
  "onDebuggingStoppedOn r w =
     (case r of Channel this \<Rightarrow> Inr (handleDebuggingStopped this w) | NetServer \<Rightarrow> Inl TypeError)"

text \<open>The handler of the socket's \<open>data\<close> event decodes the buffer it is given. The
  decoder is a parameter; where it throws, its result is \<open>None\<close> and the \<open>catch\<close> of the
  handler runs. An event type without a case in the \<open>switch\<close> is passed over.\<close>

definition socketData ::
  "(byte list \<Rightarrow> DebuggerEvent option) \<Rightarrow> receiver \<Rightarrow> byte list \<Rightarrow> World \<Rightarrow> reason + World" where
  "socketData decode r buffer w =
     (case decode buffer of
        None \<Rightarrow> appendLineOn r ''Warning: Invalid event received from debugger'' w
      | Some (ProcessLaunchedEvent targetProcessId) \<Rightarrow>
          (case appendLineOn r
                  (''Started debugging process #'' @ toString_int targetProcessId @ ''.'') w of
             Inl e \<Rightarrow> Inl e
           | Inr w1 \<Rightarrow> fireEventOn r ProcessLaunched [Number targetProcessId] w1)
      | Some DebuggingStoppedEvent \<Rightarrow>
          (case appendLineOn r ''Debugging complete.'' w of
             Inl e \<Rightarrow> Inl e
           | Inr w1 \<Rightarrow>
               (case appendLineOn r '''' w1 of
                  Inl e \<Rightarrow> Inl e
                | Inr w2 \<Rightarrow> onDebuggingStoppedOn r w2))
      | Some OtherEvent \<Rightarrow> Inr w)"

definition socketEnd :: "receiver \<Rightarrow> World \<Rightarrow> reason + World" where
  "socketEnd r w = onDebuggingStoppedOn r w"

text \<open>What reaches a channel with one connection: a chunk of data, the end of the
  connection, or the server completing the oldest pending call of \<open>server.close\<close>, with
  its error, if any.\<close>

datatype signal = Data "byte list" | End | ServerClosed "string option"

definition handleSignal ::
  "(byte list \<Rightarrow> DebuggerEvent option) \<Rightarrow> nat \<Rightarrow> receiver \<Rightarrow> signal \<Rightarrow> World \<Rightarrow> reason + World" where
  "handleSignal decode this r s w =
     (case s of
        Data buffer \<Rightarrow> socketData decode r buffer w
      | End \<Rightarrow> socketEnd r w
      | ServerClosed err \<Rightarrow>
          Inr (if this \<in> set (closing w) then snd (closeCallback this err w) else w))"

text \<open>The signals of one connection of the channel \<open>this\<close>, with \<open>r\<close> as the \<open>this\<close> of the
  handlers. An exception that leaves a handler is collected, and the signals after it are
  delivered to the world as the handler left it.\<close>

fun connection ::
  "(byte list \<Rightarrow> DebuggerEvent option) \<Rightarrow> nat \<Rightarrow> receiver \<Rightarrow> signal list \<Rightarrow> World
     \<Rightarrow> reason list \<times> World" where
  "connection decode this r [] w = ([], w)"
| "connection decode this r (s # ss) w =
     (case handleSignal decode this r s w of
        Inl e \<Rightarrow> (e # fst (connection decode this r ss w), snd (connection decode this r ss w))
      | Inr w1 \<Rightarrow> connection decode this r ss w1)"

text \<open>The connection as \<open>start\<close> of the first listing wires it: the handlers run with the
  server of \<open>net\<close> as \<open>this\<close>.\<close>

definition wired ::
  "(byte list \<Rightarrow> DebuggerEvent option) \<Rightarrow> nat \<Rightarrow> signal list \<Rightarrow> World \<Rightarrow> reason list \<times> World" where
  "wired decode this ss w = connection decode this NetServer ss w"

subsection \<open>The second listing: \<open>close\<close>, the two private methods and the handlers\<close>

text \<open>\<open>close\<close> of the second listing is synchronous: it clears the slot when it holds this
  instance, returns when \<open>_isClosed\<close> is set, and else sets \<open>_isClosed\<close> and calls
  \<open>close\<close> on the server, with no callback. The first component of the result is the
  exception thrown, if any: calling \<open>close\<close> on the unassigned field throws.\<close>

definition close2 :: "nat \<Rightarrow> World \<Rightarrow> reason option \<times> World" where
  "close2 this w =
     (let w1 = (if s_activeInstance w = Some this then w\<lparr>s_activeInstance := None\<rparr> else w)
      in if isClosed (instances w1 this) then (None, w1)
         else
           (let w2 = updateInstance this (\<lambda>l. l\<lparr>isClosed := True\<rparr>) w1
            in if serverSocket (instances w2 this) \<noteq> Null then
                 (case serverSocket (instances w2 this) of
                    Server \<Rightarrow> (None, w2\<lparr>closing := closing w2 @ [this]\<rparr>)
                  | _ \<Rightarrow> (Some TypeError, w2))
               else (None, w2)))"

text \<open>The private \<open>onProcessLaunched(targetProcessId)\<close>: it builds the launch request,
  subscribes to the test messages and sends the request. The subscription is disposed
  when the server answers, which is outside this model.\<close>

definition onProcessLaunched2 :: "nat \<Rightarrow> int \<Rightarrow> World \<Rightarrow> World" where
  "onProcessLaunched2 this targetProcessId w =
     w\<lparr>sent := sent w @
          [OnTestMessage, DebugTestLaunch (listenerFileName (instances w this)) targetProcessId]\<rparr>"

text \<open>The private \<open>onDebuggingStopped()\<close>: nothing when \<open>_isClosed\<close> is set, else the
  stop request and \<open>close\<close>.\<close>

definition onDebuggingStopped2 :: "nat \<Rightarrow> World \<Rightarrow> reason option \<times> World" where
  "onDebuggingStopped2 this w =
     (if isClosed (instances w this) then (None, w)
      else close2 this (w\<lparr>sent := sent w @ [DebugTestStop (listenerFileName (instances w this))]\<rparr>))"

text \<open>
  The handlers of the second listing are arrow functions inside \<open>start\<close>, so their \<open>this\<close>
  is the channel. The data handler decodes the buffer it is given; the decoder is a
  parameter, and where it throws its result is \<open>None\<close> and the \<open>catch\<close> of the handler
  runs. An event type without a case in the \<open>switch\<close> is passed over. The result is the
  world when the handler returns, or when \<open>close\<close> throws in it.
\<close>

definition onData ::
  "(byte list \<Rightarrow> DebuggerEvent option) \<Rightarrow> nat \<Rightarrow> byte list \<Rightarrow> World \<Rightarrow> World" where
  "onData decode this buffer w =
     (case decode buffer of
        None \<Rightarrow> appendLine ''Warning: Invalid event received from debugger'' w
      | Some (ProcessLaunchedEvent targetProcessId) \<Rightarrow>
          onProcessLaunched2 this targetProcessId
            (appendLine (''Started debugging process #'' @ toString_int targetProcessId @ ''.'') w)
      | Some DebuggingStoppedEvent \<Rightarrow>
          snd (onDebuggingStopped2 this (appendLine '''' (appendLine ''Debugging complete.'' w)))
      | Some OtherEvent \<Rightarrow> w)"

definition onEnd :: "nat \<Rightarrow> World \<Rightarrow> World" where
  "onEnd this w = snd (onDebuggingStopped2 this w)"

text \<open>The signals of a connection of the second listing; when the server completes a call
  of \<open>close\<close> there is no callback to run.\<close>

definition deliver ::
  "(byte list \<Rightarrow> DebuggerEvent option) \<Rightarrow> nat \<Rightarrow> signal \<Rightarrow> World \<Rightarrow> World" where
  "deliver decode this s w =
     (case s of
        Data buffer \<Rightarrow> onData decode this buffer w
      | End \<Rightarrow> onEnd this w
      | ServerClosed err \<Rightarrow>
          if this \<in> set (closing w) then w\<lparr>closing := remove1 this (closing w)\<rparr> else w)"

fun run ::
  "(byte list \<Rightarrow> DebuggerEvent option) \<Rightarrow> nat \<Rightarrow> signal list \<Rightarrow> World \<Rightarrow> World" where
  "run decode this [] w = w"
| "run decode this (s # ss) w = run decode this ss (deliver decode this s w)"

subsection \<open>\<open>start\<close>\<close>

datatype serverEvent = ErrorEvent string | Listening

text \<open>A promise settles once: later calls of \<open>resolve\<close> and \<open>reject\<close> do nothing.\<close>

definition settle :: "promise \<Rightarrow> promise \<Rightarrow> promise" where
  "settle p q = (if p = Pending then q else p)"

text \<open>\<open>_startListening\<close>, which is the end of \<open>start\<close> in the second listing: the events of
  the server in the order they occur, with the local variable \<open>isStarted\<close> and the promise
  that is returned.\<close>

fun listening :: "serverEvent list \<Rightarrow> bool \<Rightarrow> promise \<Rightarrow> World \<Rightarrow> promise \<times> World" where
  "listening [] isStarted p w = (p, w)"
| "listening (ErrorEvent message # es) isStarted p w =
     (if \<not> isStarted then listening es isStarted (settle p (Rejected (Message message))) w
      else listening es isStarted p
             (appendLine (''Warning: Communications error on debugger event channel. '' @ message) w))"
| "listening (Listening # es) isStarted p w = listening es True (settle p Resolved) w"

definition startListening :: "serverEvent list \<Rightarrow> World \<Rightarrow> promise \<times> World" where
  "startListening es w = listening es False Pending w"

definition clearActiveInstance :: "World \<Rightarrow> promise \<times> World" where
  "clearActiveInstance w =
     (case s_activeInstance w of
        Some active \<Rightarrow> close active w
      | None \<Rightarrow> (Resolved, w))"

text \<open>What happens around one call of \<open>start\<close>: whether and with which error the server
  of the previous holder runs the callback of \<open>server.close\<close>, what removing the socket
  file does, and the events of the new server. On win32 nothing is removed and the step
  resolves. Elsewhere the step is \<open>utils.deleteIfExists\<close>, which resolves or rejects; the
  first listing hands \<open>_removeSocketFileIfExists\<close> to \<open>then\<close> without its object, so
  there it throws on reading \<open>_pipePath\<close>, which is a rejection.\<close>

record StartEnvironment =
  previousClosed :: "string option option"
  deleteIfExists :: "unit response"
  serverEvents :: "serverEvent list"

text \<open>The steps of \<open>start\<close> after \<open>_clearActiveInstance\<close> has resolved.\<close>

definition startThen :: "nat \<Rightarrow> StartEnvironment \<Rightarrow> World \<Rightarrow> promise \<times> World" where
  "startThen this env w =
     (let w1 = updateInstance this (\<lambda>l. l\<lparr>serverSocket := Server\<rparr>)
                 (w\<lparr>s_activeInstance := Some this\<rparr>)
      in case deleteIfExists env of
           Hangs \<Rightarrow> (Pending, w1)
         | Fails message \<Rightarrow> (Rejected (Message message), w1)
         | Returns _ \<Rightarrow> startListening (serverEvents env) w1)"

definition start :: "nat \<Rightarrow> StartEnvironment \<Rightarrow> World \<Rightarrow> promise \<times> World" where
  "start this env w =
     (case clearActiveInstance w of
        (AwaitsClose previous, w1) \<Rightarrow>
          (case previousClosed env of
             None \<Rightarrow> (Pending, w1)
           | Some err \<Rightarrow>
               (case closeCallback previous err w1 of
                  (Resolved, w2) \<Rightarrow> startThen this env w2
                | (p, w2) \<Rightarrow> (p, w2)))
      | (Resolved, w1) \<Rightarrow> startThen this env w1
      | (p, w1) \<Rightarrow> (p, w1))"

text \<open>\<open>start\<close> gets as far as \<open>_startListening\<close> when the promise of
  \<open>_clearActiveInstance\<close> resolves and the socket file is removed. The promise resolves at
  once, or when the server of the previous holder runs the callback with an error.\<close>

definition binds :: "StartEnvironment \<Rightarrow> World \<Rightarrow> bool" where
  "binds env w =
     (deleteIfExists env = Returns () \<and>
      (case clearActiveInstance w of
         (Resolved, _) \<Rightarrow> True
       | (AwaitsClose _, _) \<Rightarrow>
           (case previousClosed env of Some (Some _) \<Rightarrow> True | _ \<Rightarrow> False)
       | _ \<Rightarrow> False))"

text \<open>The messages of the error events in a list of server events.\<close>

fun errorMessages :: "serverEvent list \<Rightarrow> string list" where
  "errorMessages [] = []"
| "errorMessages (ErrorEvent message # es) = message # errorMessages es"
| "errorMessages (Listening # es) = errorMessages es"

text \<open>A channel of the first listing that started and listens, with nothing in its way: no
  holder of the slot before it, the socket file removed, the server listening.\<close>

definition started :: "nat \<Rightarrow> World \<Rightarrow> World" where
  "started this w =
     snd (start this \<lparr>previousClosed = None, deleteIfExists = Returns (),
                      serverEvents = [Listening]\<rparr> w)"

text \<open>\<open>start\<close> of the second listing: it closes the holder of the slot, if there is one,
  takes the slot, creates the server with the handlers above, removes the socket file and
  listens. An exception of the holder's \<open>close\<close> leaves \<open>start\<close> at once; it is given as
  a rejection.\<close>

definition start2 :: "nat \<Rightarrow> StartEnvironment \<Rightarrow> World \<Rightarrow> promise \<times> World" where
  "start2 this env w =
     (case (case s_activeInstance w of Some active \<Rightarrow> close2 active w | None \<Rightarrow> (None, w)) of
        (Some e, w1) \<Rightarrow> (Rejected e, w1)
      | (None, w1) \<Rightarrow>
          (let w2 = updateInstance this (\<lambda>l. l\<lparr>serverSocket := Server\<rparr>)
                      (w1\<lparr>s_activeInstance := Some this\<rparr>)
           in case deleteIfExists env of
                Hangs \<Rightarrow> (Pending, w2)
              | Fails message \<Rightarrow> (Rejected (Message message), w2)
              | Returns _ \<Rightarrow> startListening (serverEvents env) w2))"

text \<open>A channel of the second listing for a file, constructed, started and listening.\<close>

definition started2 :: "nat \<Rightarrow> string \<Rightarrow> World \<Rightarrow> World" where
  "started2 this name w =
     snd (start2 this \<lparr>previousClosed = None, deleteIfExists = Returns (),
                       serverEvents = [Listening]\<rparr> (construct2 this name w))"

section \<open>Results\<close>

subsection \<open>Numerals\<close>

lemma toString_nat_small:
  "toString_nat 0 = ''0''" "toString_nat 1 = ''1''" "toString_nat 2 = ''2''"
  by code_simp+

lemma toString_nat_Suc:
  "toString_nat (Suc 0) = ''1''" "toString_nat (Suc (Suc 0)) = ''2''"
  using toString_nat_small by (simp_all add: numeral_2_eq_2)

subsection \<open>The log\<close>

lemma logLines_append: "logLines (xs @ ys) = logLines xs @ logLines ys"
  by (simp add: logLines_def)

lemma logLines_Cons:
  "logLines (e # es) = (case e of AppendLine s \<Rightarrow> [s] | _ \<Rightarrow> []) @ logLines es"
  by (simp add: logLines_def)

lemma logLine_in_output:
  assumes "l \<in> set (logLines es)"
  shows "sublist l (logOutput es)"
proof -
  from assms obtain as bs where "logLines es = as @ l # bs"
    by (auto dest: split_list)
  then have "logOutput es =
      concat (map (\<lambda>l. l @ [CHR 0x0A]) as) @ l @
        ([CHR 0x0A] @ concat (map (\<lambda>l. l @ [CHR 0x0A]) bs))"
    by (simp add: logOutput_def)
  then show ?thesis
    unfolding sublist_def by blast
qed

subsection \<open>The summary of the results\<close>

text \<open>
  Claim C5. When the files are saved and the run-test request returns a list of results,
  \<open>runTest\<close> logs the line \<open>Total tests: t. Passed: p. Failed: f. Skipped: s\<close>, where
  \<open>t\<close> is the decimal numeral of the length of the list and \<open>p\<close>, \<open>f\<close>, \<open>s\<close> are the
  decimal numerals of the numbers of results with the tags Passed, Failed and Skipped; a
  numeral reads back as the number it was printed from. For the outcomes Passed, Failed
  the line is \<open>Total tests: 2. Passed: 1. Failed: 1. Skipped: 0\<close>, and the log output
  contains it.
\<close>

theorem runTest_logs_summary:
  assumes "saveAll env = Returns saved" and "runTestResponse env = Returns results"
  shows "(''Total tests: '' @ toString_nat (length results)
            @ ''. Passed: ''
            @ toString_nat (length (filter (\<lambda>r. Outcome r = TestOutcomes_Passed) results))
            @ ''. Failed: ''
            @ toString_nat (length (filter (\<lambda>r. Outcome r = TestOutcomes_Failed) results))
            @ ''. Skipped: ''
            @ toString_nat (length (filter (\<lambda>r. Outcome r = TestOutcomes_Skipped) results)))
           \<in> set (logLines (runTest env testMethod fileName testFrameworkName))
       \<and> decimal (toString_nat n) = Some n
       \<and> (map Outcome results = [TestOutcomes_Passed, TestOutcomes_Failed] \<longrightarrow>
            ''Total tests: 2. Passed: 1. Failed: 1. Skipped: 0''
              \<in> set (logLines (runTest env testMethod fileName testFrameworkName))
          \<and> sublist ''Total tests: 2. Passed: 1. Failed: 1. Skipped: 0''
              (logOutput (runTest env testMethod fileName testFrameworkName)))"
proof -
  let ?line = "''Total tests: '' @ toString_nat (length results)
            @ ''. Passed: ''
            @ toString_nat (length (filter (\<lambda>r. Outcome r = TestOutcomes_Passed) results))
            @ ''. Failed: ''
            @ toString_nat (length (filter (\<lambda>r. Outcome r = TestOutcomes_Failed) results))
            @ ''. Skipped: ''
            @ toString_nat (length (filter (\<lambda>r. Outcome r = TestOutcomes_Skipped) results))"
  let ?run = "runTest env testMethod fileName testFrameworkName"
  have digit_code: "(of_char (digit d) :: nat) = 48 + d" if "d < 10" for d
    using that by (simp add: digit_def)
  have from_append: "decimalFrom acc (xs @ ys) =
      (case decimalFrom acc xs of None \<Rightarrow> None | Some v \<Rightarrow> decimalFrom v ys)" for acc xs ys
    by (induction xs arbitrary: acc) simp_all
  have from_numeral: "decimalFrom 0 (toString_nat m) = Some m" for m
  proof (induction m rule: toString_nat.induct)
    case (1 m)
    show ?case
    proof (cases "m < 10")
      case True
      then show ?thesis
        by (subst toString_nat.simps) (simp add: digit_code)
    next
      case False
      have d: "(of_char (digit (m mod 10)) :: nat) = 48 + m mod 10"
        by (simp add: digit_code)
      from False "1.IH" have "decimalFrom 0 (toString_nat (m div 10)) = Some (m div 10)"
        by simp
      with False show ?thesis
        by (subst toString_nat.simps) (simp add: from_append d)
    qed
  qed
  have not_empty: "toString_nat m \<noteq> []" for m
    by (subst toString_nat.simps) simp
  have numeral: "decimal (toString_nat n) = Some n"
    by (simp add: decimal_def not_empty from_numeral)
  have counted: "countOutcomes rs (p, f, s) =
     (p + length (filter (\<lambda>r. Outcome r = TestOutcomes_Passed) rs),
      f + length (filter (\<lambda>r. Outcome r = TestOutcomes_Failed) rs),
      s + length (filter (\<lambda>r. Outcome r = TestOutcomes_Skipped) rs))" for rs p f s
    by (induction rs arbitrary: p f s)
       (simp_all add: TestOutcomes_Passed_def TestOutcomes_Failed_def TestOutcomes_Skipped_def)
  have mem: "?line \<in> set (logLines ?run)"
    using assms
    by (simp add: runTest_def reportResults_def counted logLines_append logLines_Cons)
  have small: "toString_nat 0 = ''0''" "toString_nat (Suc 0) = ''1''"
    "toString_nat (Suc (Suc 0)) = ''2''"
    by code_simp+
  have eq: "?line = ''Total tests: 2. Passed: 1. Failed: 1. Skipped: 0''"
    if "map Outcome results = [TestOutcomes_Passed, TestOutcomes_Failed]"
  proof -
    from that obtain r1 r2 where rs: "results = [r1, r2]"
      and o: "Outcome r1 = TestOutcomes_Passed" "Outcome r2 = TestOutcomes_Failed"
      by (auto simp: map_eq_Cons_conv)
    show ?thesis
      by (simp add: rs o small TestOutcomes_Passed_def TestOutcomes_Failed_def
            TestOutcomes_Skipped_def)
  qed
  show ?thesis
  proof (intro conjI impI)
    show "?line \<in> set (logLines ?run)" by (rule mem)
  next
    show "decimal (toString_nat n) = Some n" by (rule numeral)
  next
    assume a: "map Outcome results = [TestOutcomes_Passed, TestOutcomes_Failed]"
    show "''Total tests: 2. Passed: 1. Failed: 1. Skipped: 0'' \<in> set (logLines ?run)"
      using mem by (simp only: eq [OF a])
  next
    assume a: "map Outcome results = [TestOutcomes_Passed, TestOutcomes_Failed]"
    show "sublist ''Total tests: 2. Passed: 1. Failed: 1. Skipped: 0'' (logOutput ?run)"
      using logLine_in_output [OF mem] by (simp only: eq [OF a])
  qed
qed

theorem runTest_logs_summary_witness:
  "saveAll (stubEnvironment [\<lparr>Outcome = ''Passed''\<rparr>, \<lparr>Outcome = ''Failed''\<rparr>]
              \<lparr>MsBuildProject = None, DotNetProject = None\<rparr>) = Returns True
   \<and> runTestResponse (stubEnvironment [\<lparr>Outcome = ''Passed''\<rparr>, \<lparr>Outcome = ''Failed''\<rparr>]
              \<lparr>MsBuildProject = None, DotNetProject = None\<rparr>)
       = Returns [\<lparr>Outcome = ''Passed''\<rparr>, \<lparr>Outcome = ''Failed''\<rparr>]
   \<and> ''Total tests: 2. Passed: 1. Failed: 1. Skipped: 0''
     \<in> set (logLines (runTest
          (stubEnvironment [\<lparr>Outcome = ''Passed''\<rparr>, \<lparr>Outcome = ''Failed''\<rparr>]
             \<lparr>MsBuildProject = None, DotNetProject = None\<rparr>)
          ''MyTests.Should_Add'' ''Calc.cs'' ''xunit''))
   \<and> sublist ''Total tests: 2. Passed: 1. Failed: 1. Skipped: 0''
       (logOutput (runTest
          (stubEnvironment [\<lparr>Outcome = ''Passed''\<rparr>, \<lparr>Outcome = ''Failed''\<rparr>]
             \<lparr>MsBuildProject = None, DotNetProject = None\<rparr>)
          ''MyTests.Should_Add'' ''Calc.cs'' ''xunit''))"
  using runTest_logs_summary
    [of "stubEnvironment [\<lparr>Outcome = ''Passed''\<rparr>, \<lparr>Outcome = ''Failed''\<rparr>]
           \<lparr>MsBuildProject = None, DotNetProject = None\<rparr>" True
        "[\<lparr>Outcome = ''Passed''\<rparr>, \<lparr>Outcome = ''Failed''\<rparr>]"
        "''MyTests.Should_Add''" "''Calc.cs''" "''xunit''"]
  by (simp add: stubEnvironment_def TestOutcomes_Passed_def TestOutcomes_Failed_def)

text \<open>The logged line ends with the last count: in the scenario of the spec the log
  output has no full stop after \<open>Skipped: 0\<close>.\<close>

lemma summary_ends_with_last_count:
  "\<not> sublist ''Skipped: 0.''
       (logOutput (runTest
          (stubEnvironment [\<lparr>Outcome = TestOutcomes_Passed\<rparr>, \<lparr>Outcome = TestOutcomes_Failed\<rparr>]
             \<lparr>MsBuildProject = None, DotNetProject = None\<rparr>)
          ''MyTests.Should_Add'' ''Calc.cs'' ''xunit''))"
  by code_simp

text \<open>
  Claim C9. The summary line of \<open>_reportResults\<close> prints the length of the list as the
  total and, for each of the three tags, the number of results that carry it, each as a
  decimal numeral that reads back as that number. A result with any other tag is in the
  total and in none of the three counts: the three counts and the number of such results
  add up to the total, so with one such result in the list the three counts add up to
  less than the total.
\<close>

theorem reportResults_other_outcomes:
  "logLines (reportResults results) =
     ['''',
      ''Total tests: '' @ toString_nat (length results)
        @ ''. Passed: ''
        @ toString_nat (length (filter (\<lambda>r. Outcome r = TestOutcomes_Passed) results))
        @ ''. Failed: ''
        @ toString_nat (length (filter (\<lambda>r. Outcome r = TestOutcomes_Failed) results))
        @ ''. Skipped: ''
        @ toString_nat (length (filter (\<lambda>r. Outcome r = TestOutcomes_Skipped) results)),
      '''']
   \<and> decimal (toString_nat n) = Some n
   \<and> length (filter (\<lambda>r. Outcome r = TestOutcomes_Passed) results)
       + length (filter (\<lambda>r. Outcome r = TestOutcomes_Failed) results)
       + length (filter (\<lambda>r. Outcome r = TestOutcomes_Skipped) results)
       + length (filter (\<lambda>r. Outcome r \<noteq> TestOutcomes_Passed \<and> Outcome r \<noteq> TestOutcomes_Failed
                          \<and> Outcome r \<noteq> TestOutcomes_Skipped) results)
       = length results
   \<and> ((\<exists>r \<in> set results. Outcome r \<noteq> TestOutcomes_Passed \<and> Outcome r \<noteq> TestOutcomes_Failed
                          \<and> Outcome r \<noteq> TestOutcomes_Skipped) \<longrightarrow>
        length (filter (\<lambda>r. Outcome r = TestOutcomes_Passed) results)
          + length (filter (\<lambda>r. Outcome r = TestOutcomes_Failed) results)
          + length (filter (\<lambda>r. Outcome r = TestOutcomes_Skipped) results) < length results)"
proof -
  let ?other = "\<lambda>r. Outcome r \<noteq> TestOutcomes_Passed \<and> Outcome r \<noteq> TestOutcomes_Failed
                          \<and> Outcome r \<noteq> TestOutcomes_Skipped"
  let ?sum = "length (filter (\<lambda>r. Outcome r = TestOutcomes_Passed) results)
       + length (filter (\<lambda>r. Outcome r = TestOutcomes_Failed) results)
       + length (filter (\<lambda>r. Outcome r = TestOutcomes_Skipped) results)"
  have digit_code: "(of_char (digit d) :: nat) = 48 + d" if "d < 10" for d
    using that by (simp add: digit_def)
  have from_append: "decimalFrom acc (xs @ ys) =
      (case decimalFrom acc xs of None \<Rightarrow> None | Some v \<Rightarrow> decimalFrom v ys)" for acc xs ys
    by (induction xs arbitrary: acc) simp_all
  have from_numeral: "decimalFrom 0 (toString_nat m) = Some m" for m
  proof (induction m rule: toString_nat.induct)
    case (1 m)
    show ?case
    proof (cases "m < 10")
      case True
      then show ?thesis
        by (subst toString_nat.simps) (simp add: digit_code)
    next
      case False
      have d: "(of_char (digit (m mod 10)) :: nat) = 48 + m mod 10"
        by (simp add: digit_code)
      from False "1.IH" have "decimalFrom 0 (toString_nat (m div 10)) = Some (m div 10)"
        by simp
      with False show ?thesis
        by (subst toString_nat.simps) (simp add: from_append d)
    qed
  qed
  have not_empty: "toString_nat m \<noteq> []" for m
    by (subst toString_nat.simps) simp
  have numeral: "decimal (toString_nat n) = Some n"
    by (simp add: decimal_def not_empty from_numeral)
  have counted: "countOutcomes rs (p, f, s) =
     (p + length (filter (\<lambda>r. Outcome r = TestOutcomes_Passed) rs),
      f + length (filter (\<lambda>r. Outcome r = TestOutcomes_Failed) rs),
      s + length (filter (\<lambda>r. Outcome r = TestOutcomes_Skipped) rs))" for rs p f s
    by (induction rs arbitrary: p f s)
       (simp_all add: TestOutcomes_Passed_def TestOutcomes_Failed_def TestOutcomes_Skipped_def)
  have line: "logLines (reportResults results) =
     ['''',
      ''Total tests: '' @ toString_nat (length results)
        @ ''. Passed: ''
        @ toString_nat (length (filter (\<lambda>r. Outcome r = TestOutcomes_Passed) results))
        @ ''. Failed: ''
        @ toString_nat (length (filter (\<lambda>r. Outcome r = TestOutcomes_Failed) results))
        @ ''. Skipped: ''
        @ toString_nat (length (filter (\<lambda>r. Outcome r = TestOutcomes_Skipped) results)),
      '''']"
    by (simp add: reportResults_def counted logLines_def)
  have sum: "?sum + length (filter ?other results) = length results"
    by (induction results)
       (auto simp: TestOutcomes_Passed_def TestOutcomes_Failed_def TestOutcomes_Skipped_def)
  have pos: "0 < length (filter ?other results)" if "\<exists>r \<in> set results. ?other r"
    using that by (simp add: filter_empty_conv)
  have less: "?sum < length results" if "\<exists>r \<in> set results. ?other r"
    using pos [OF that] sum by linarith
  from sum less line numeral show ?thesis by blast
qed

theorem reportResults_other_outcomes_witness:
  "logLines (reportResults [\<lparr>Outcome = ''Passed''\<rparr>, \<lparr>Outcome = ''NotFound''\<rparr>]) =
     ['''', ''Total tests: 2. Passed: 1. Failed: 0. Skipped: 0'', '''']
   \<and> decimal ''2'' = Some 2
   \<and> length (filter (\<lambda>r. Outcome r = TestOutcomes_Passed)
               [\<lparr>Outcome = ''Passed''\<rparr>, \<lparr>Outcome = ''NotFound''\<rparr>])
       + length (filter (\<lambda>r. Outcome r = TestOutcomes_Failed)
               [\<lparr>Outcome = ''Passed''\<rparr>, \<lparr>Outcome = ''NotFound''\<rparr>])
       + length (filter (\<lambda>r. Outcome r = TestOutcomes_Skipped)
               [\<lparr>Outcome = ''Passed''\<rparr>, \<lparr>Outcome = ''NotFound''\<rparr>])
       < length [\<lparr>Outcome = ''Passed''\<rparr>, \<lparr>Outcome = ''NotFound''\<rparr>]"
proof -
  have other: "\<exists>r \<in> set [\<lparr>Outcome = ''Passed''\<rparr>, \<lparr>Outcome = ''NotFound''\<rparr>].
      Outcome r \<noteq> TestOutcomes_Passed \<and> Outcome r \<noteq> TestOutcomes_Failed
        \<and> Outcome r \<noteq> TestOutcomes_Skipped"
    by (simp add: TestOutcomes_Passed_def TestOutcomes_Failed_def TestOutcomes_Skipped_def)
  from reportResults_other_outcomes
      [of "[\<lparr>Outcome = ''Passed''\<rparr>, \<lparr>Outcome = ''NotFound''\<rparr>]" 2] other
  show ?thesis
    by (simp add: toString_nat_small toString_nat_Suc TestOutcomes_Passed_def
          TestOutcomes_Failed_def TestOutcomes_Skipped_def)
qed

subsection \<open>The project kind in \<open>debugTest\<close>\<close>

lemma map_of_setProperty:
  "map_of (setProperty k v ps) k' = (if k' = k then Some v else map_of ps k')"
  by (induction ps) auto

lemma createLaunchConfiguration_pipe:
  "createLaunchConfiguration debugOptions program args cwd pipe = Some c \<Longrightarrow>
     map_of c ''debuggerEventsPipeName'' = Some pipe"
  by (auto simp: createLaunchConfiguration_def map_of_setProperty
        split: debugOptions.splits)

lemma launch_StartDebug:
  "StartDebug c \<in> set (launch env config hasListener) \<Longrightarrow> config = Some c"
  by (auto simp: launch_def debugTest_catch_def split: option.splits response.splits if_splits)

text \<open>
  Claim C7. When the files are saved and the project information has neither
  \<open>DotNetProject\<close> nor \<open>MsBuildProject\<close>, \<open>debugTest\<close> throws the error
  \<open>Expected project.json or .csproj project.\<close> (the spec's UnsupportedProjectKind), the
  \<open>catch\<close> shows an error message with this reason, and that is all: no listener is
  created or started, no start information is asked for and no configuration goes to
  \<open>vscode.startDebug\<close>.
\<close>

theorem debugTest_unsupported_project:
  assumes "saveAll env = Returns saved"
    and "projectInformation env = Returns projectInfo"
    and "DotNetProject projectInfo = None" and "MsBuildProject projectInfo = None"
  shows "debugTest env testMethod fileName testFrameworkName =
           [ShowChannel,
            AppendLine (''Debugging method '' @ [CHR 0x27] @ testMethod @ [CHR 0x27] @ ''...''),
            AppendLine '''', SaveAll, RequestProjectInformation fileName,
            ShowErrorMessage
              ''Failed to start debugger: Error: Expected project.json or .csproj project.'']
       \<and> NewDebugEventListener f \<notin> set (debugTest env testMethod fileName testFrameworkName)
       \<and> StartDebugEventListener \<notin> set (debugTest env testMethod fileName testFrameworkName)
       \<and> GetTestStartInfo r \<notin> set (debugTest env testMethod fileName testFrameworkName)
       \<and> DebugTestGetStartInfo r \<notin> set (debugTest env testMethod fileName testFrameworkName)
       \<and> StartDebug c \<notin> set (debugTest env testMethod fileName testFrameworkName)"
  using assms by (simp add: debugTest_def debugTest_catch_def)

theorem debugTest_unsupported_project_witness:
  "saveAll (stubEnvironment [] \<lparr>MsBuildProject = None, DotNetProject = None\<rparr>) = Returns True
   \<and> projectInformation (stubEnvironment [] \<lparr>MsBuildProject = None, DotNetProject = None\<rparr>)
       = Returns \<lparr>MsBuildProject = None, DotNetProject = None\<rparr>
   \<and> debugTest (stubEnvironment [] \<lparr>MsBuildProject = None, DotNetProject = None\<rparr>)
      ''MyTests.Should_Add'' ''Calc.cs'' ''xunit'' =
     [ShowChannel, AppendLine ''Debugging method 'MyTests.Should_Add'...'', AppendLine '''',
      SaveAll, RequestProjectInformation ''Calc.cs'',
      ShowErrorMessage
        ''Failed to start debugger: Error: Expected project.json or .csproj project.'']"
  using debugTest_unsupported_project
    [of "stubEnvironment [] \<lparr>MsBuildProject = None, DotNetProject = None\<rparr>" True
        "\<lparr>MsBuildProject = None, DotNetProject = None\<rparr>"
        "''MyTests.Should_Add''" "''Calc.cs''" "''xunit''"]
  by (simp add: stubEnvironment_def)

text \<open>
  Claim C10. When the files are saved and the project information has both
  \<open>DotNetProject\<close> and \<open>MsBuildProject\<close>, the first test of \<open>debugTest\<close> decides: the
  call goes on as \<open>_getLaunchConfigurationForLegacy\<close>. The legacy start-info request is
  sent, no listener is created, started or closed, the vstest request is not sent, and a
  configuration that reaches \<open>vscode.startDebug\<close> has \<open>debuggerEventsPipeName\<close> set to
  \<open>null\<close>.
\<close>

theorem debugTest_both_markers_legacy:
  assumes "saveAll env = Returns saved"
    and "projectInformation env = Returns projectInfo"
    and "DotNetProject projectInfo = Some legacyProject"
    and "MsBuildProject projectInfo = Some buildProject"
  shows "debugTest env testMethod fileName testFrameworkName =
           [ShowChannel,
            AppendLine (''Debugging method '' @ [CHR 0x27] @ testMethod @ [CHR 0x27] @ ''...''),
            AppendLine '''', SaveAll, RequestProjectInformation fileName] @
           getLaunchConfigurationForLegacy env fileName testMethod testFrameworkName False
       \<and> GetTestStartInfo \<lparr>FileName = fileName, MethodName = testMethod,
                             TestFrameworkName = testFrameworkName\<rparr>
           \<in> set (debugTest env testMethod fileName testFrameworkName)
       \<and> NewDebugEventListener f \<notin> set (debugTest env testMethod fileName testFrameworkName)
       \<and> StartDebugEventListener \<notin> set (debugTest env testMethod fileName testFrameworkName)
       \<and> CloseDebugEventListener \<notin> set (debugTest env testMethod fileName testFrameworkName)
       \<and> DebugTestGetStartInfo r \<notin> set (debugTest env testMethod fileName testFrameworkName)
       \<and> (StartDebug c \<in> set (debugTest env testMethod fileName testFrameworkName) \<longrightarrow>
            map_of c ''debuggerEventsPipeName'' = Some JNull)"
proof -
  let ?legacy = "getLaunchConfigurationForLegacy env fileName testMethod testFrameworkName False"
  have eq: "debugTest env testMethod fileName testFrameworkName =
           [ShowChannel,
            AppendLine (''Debugging method '' @ [CHR 0x27] @ testMethod @ [CHR 0x27] @ ''...''),
            AppendLine '''', SaveAll, RequestProjectInformation fileName] @ ?legacy"
    using assms by (simp add: debugTest_def getLaunchConfiguration_def)
  have req: "GetTestStartInfo \<lparr>FileName = fileName, MethodName = testMethod,
                             TestFrameworkName = testFrameworkName\<rparr> \<in> set ?legacy"
    by (simp add: getLaunchConfigurationForLegacy_def)
  have none: "NewDebugEventListener f \<notin> set ?legacy" "StartDebugEventListener \<notin> set ?legacy"
    "CloseDebugEventListener \<notin> set ?legacy" "DebugTestGetStartInfo r \<notin> set ?legacy"
    by (auto simp: getLaunchConfigurationForLegacy_def launch_def debugTest_catch_def
          split: response.splits GetTestStartInfoResponse.splits option.splits)
  have pipe: "map_of c ''debuggerEventsPipeName'' = Some JNull" if "StartDebug c \<in> set ?legacy"
  proof -
    from that obtain executable argument workingDirectory where
      "StartDebug c \<in> set (launch env (createLaunchConfiguration (unitTestDebugingOptions env)
                        executable argument workingDirectory JNull) False)"
      by (auto simp: getLaunchConfigurationForLegacy_def debugTest_catch_def
            split: response.splits GetTestStartInfoResponse.splits)
    then have "createLaunchConfiguration (unitTestDebugingOptions env)
                        executable argument workingDirectory JNull = Some c"
      by (rule launch_StartDebug)
    then show ?thesis by (rule createLaunchConfiguration_pipe)
  qed
  from req none pipe show ?thesis
    by (simp add: eq)
qed

theorem debugTest_both_markers_legacy_witness:
  "saveAll (stubEnvironment []
      \<lparr>MsBuildProject = Some ''a.csproj'', DotNetProject = Some ''project.json''\<rparr>) = Returns True
   \<and> projectInformation (stubEnvironment []
      \<lparr>MsBuildProject = Some ''a.csproj'', DotNetProject = Some ''project.json''\<rparr>)
       = Returns \<lparr>MsBuildProject = Some ''a.csproj'', DotNetProject = Some ''project.json''\<rparr>
   \<and> debugTest (stubEnvironment []
        \<lparr>MsBuildProject = Some ''a.csproj'', DotNetProject = Some ''project.json''\<rparr>)
      ''MyTests.Should_Add'' ''Calc.cs'' ''xunit'' =
     [ShowChannel, AppendLine ''Debugging method 'MyTests.Should_Add'...'', AppendLine '''',
      SaveAll, RequestProjectInformation ''Calc.cs'', SubscribeToTestMessages,
      GetTestStartInfo \<lparr>FileName = ''Calc.cs'', MethodName = ''MyTests.Should_Add'',
                        TestFrameworkName = ''xunit''\<rparr>,
      DisposeTestMessages,
      StartDebug [(''name'', JStr ''.NET Test Launch''), (''type'', JStr ''coreclr''),
        (''request'', JStr ''launch''), (''debuggerEventsPipeName'', JNull),
        (''program'', JStr ''dotnet''), (''args'', JStr ''test''), (''cwd'', JStr ''/work'')]]"
  using debugTest_both_markers_legacy
    [of "stubEnvironment []
           \<lparr>MsBuildProject = Some ''a.csproj'', DotNetProject = Some ''project.json''\<rparr>" True
        "\<lparr>MsBuildProject = Some ''a.csproj'', DotNetProject = Some ''project.json''\<rparr>"
        "''project.json''" "''a.csproj''"
        "''MyTests.Should_Add''" "''Calc.cs''" "''xunit''"]
  by (simp add: stubEnvironment_def getLaunchConfigurationForLegacy_def launch_def
        createLaunchConfiguration_def)

subsection \<open>The event channel: evaluation\<close>

lemmas channel_defs = initialWorld_def newListener_def appendLine_def updateInstance_def
  construct2_def removeLast_def listenersOf_def emit_def addListener_def dispose_def
  fireEvent_def onProcessLaunched_def onDebuggingStopped_def close_def closeCallback_def
  handleDebuggingStopped_def appendLineOn_def fireEventOn_def onDebuggingStoppedOn_def
  socketData_def socketEnd_def handleSignal_def wired_def close2_def onProcessLaunched2_def
  onDebuggingStopped2_def onData_def onEnd_def deliver_def settle_def startListening_def
  clearActiveInstance_def startThen_def start_def started_def start2_def started2_def

lemma decodePacket_frames:
  "decodePacket [0, 0, 0, 0, 0x92, 0x10, 0, 0] = Some (ProcessLaunchedEvent 4242)"
  "decodePacket [0, 0, 0, 0] = None"
  "decodePacket [0x92, 0x10, 0, 0] = None"
  "decodePacket [1, 0, 0, 0] = Some DebuggingStoppedEvent"
  by (simp_all add: decodePacket_def toInt32_def)

lemma decodePacket_negative:
  "decodePacket [0, 0, 0, 0, 0xFF, 0xFF, 0xFF, 0xFF] = Some (ProcessLaunchedEvent (- 1))"
  by (simp add: decodePacket_def toInt32_def)

lemma toString_int_4242: "toString_int 4242 = ''4242''"
  by code_simp

subsection \<open>Chunks of data\<close>

lemma run_append: "run decode this (xs @ ys) w = run decode this ys (run decode this xs w)"
  by (induction xs arbitrary: w) simp_all

lemma run_undecodable:
  "\<forall>c \<in> set chunks. decode c = None \<Longrightarrow>
     run decode this (map Data chunks) w =
       w\<lparr>logger := logger w @
            replicate (length chunks) ''Warning: Invalid event received from debugger''\<rparr>"
proof (induction chunks arbitrary: w)
  case Nil
  show ?case by simp
next
  case (Cons c cs)
  then show ?case
    by (simp add: deliver_def onData_def appendLine_def replicate_app_Cons_same)
qed

text \<open>
  Claim C1, as the code has it. The channel keeps no buffer between the calls of the data
  handler: each chunk is decoded on its own. Chunks that do not decode on their own only
  add one warning each to the log, whatever they would decode to when put together, and
  the chunk after them is handled as the first chunk of a connection would be. So a
  frame that arrives split in two parts, neither of which decodes, is not decoded: both
  parts are dropped with a warning and nothing is dispatched.
\<close>

theorem chunks_decoded_alone:
  assumes "\<forall>c \<in> set chunks. decode c = None"
  shows "run decode this (map Data chunks) w =
           w\<lparr>logger := logger w @
                replicate (length chunks) ''Warning: Invalid event received from debugger''\<rparr>
       \<and> run decode this (map Data chunks @ [Data chunk]) w =
           onData decode this chunk
             (w\<lparr>logger := logger w @
                  replicate (length chunks) ''Warning: Invalid event received from debugger''\<rparr>)"
  using run_undecodable [OF assms] by (simp add: run_append deliver_def)

theorem chunks_decoded_alone_witness:
  "decodePacket [0, 0, 0, 0] = None \<and> decodePacket [0x92, 0x10, 0, 0] = None
   \<and> decodePacket ([0, 0, 0, 0] @ [0x92, 0x10, 0, 0]) = Some (ProcessLaunchedEvent 4242)
   \<and> run decodePacket 1 (map Data [[0, 0, 0, 0], [0x92, 0x10, 0, 0]]) initialWorld =
       initialWorld\<lparr>logger := logger initialWorld @
         replicate (length [[0, 0, 0, 0], [0x92, 0x10, 0, 0 :: byte]])
           ''Warning: Invalid event received from debugger''\<rparr>"
proof -
  have h: "\<forall>c \<in> set [[0, 0, 0, 0], [0x92, 0x10, 0, 0]]. decodePacket c = None"
    by (simp add: decodePacket_frames)
  from chunks_decoded_alone [OF h, of 1 initialWorld] show ?thesis
    by (simp add: decodePacket_frames)
qed

text \<open>
  Claim C1, as it is stated, at a ProcessLaunched frame for the process 4242 and a channel
  of the second listing for the file \<open>Calc.cs\<close>. Given to the data handler in one piece,
  the frame is logged and the launch request for the process 4242 is sent; given in two
  pieces of four bytes, nothing is sent and the log holds two warnings.
\<close>

theorem split_frame_counterexample:
  "decodePacket [0, 0, 0, 0, 0x92, 0x10, 0, 0] = Some (ProcessLaunchedEvent 4242)
   \<and> sent (run decodePacket 1 [Data [0, 0, 0, 0, 0x92, 0x10, 0, 0]]
        (started2 1 ''Calc.cs'' initialWorld)) = [OnTestMessage, DebugTestLaunch ''Calc.cs'' 4242]
   \<and> logger (run decodePacket 1 [Data [0, 0, 0, 0, 0x92, 0x10, 0, 0]]
        (started2 1 ''Calc.cs'' initialWorld)) = [''Started debugging process #4242.'']
   \<and> sent (run decodePacket 1 [Data [0, 0, 0, 0], Data [0x92, 0x10, 0, 0]]
        (started2 1 ''Calc.cs'' initialWorld)) = []
   \<and> logger (run decodePacket 1 [Data [0, 0, 0, 0], Data [0x92, 0x10, 0, 0]]
        (started2 1 ''Calc.cs'' initialWorld)) =
       [''Warning: Invalid event received from debugger'',
        ''Warning: Invalid event received from debugger'']"
  by (simp add: channel_defs decodePacket_frames toString_int_4242)

text \<open>In the first listing the data handler has the same shape, with no buffer either. As
  it is wired it throws on every chunk that is not an event without a case; called on a
  channel, it logs the warning for a chunk that does not decode and changes nothing
  else.\<close>

lemma socketData_NetServer:
  "socketData decode NetServer buffer w =
     (if decode buffer = Some OtherEvent then Inr w else Inl TypeError)"
  by (simp add: socketData_def appendLineOn_def split: option.splits DebuggerEvent.splits)

lemma socketData_Channel_undecodable:
  "decode buffer = None \<Longrightarrow>
     socketData decode (Channel this) buffer w =
       Inr (w\<lparr>logger := logger w @ [''Warning: Invalid event received from debugger'']\<rparr>)"
  by (simp add: socketData_def appendLineOn_def appendLine_def)

subsection \<open>Stopping and closing\<close>

text \<open>
  Claim C2, evaluated. A channel of the first listing with one listener for
  DebuggingStopped has started. Its connection delivers the DebuggingStopped frame and
  then ends. As \<open>start\<close> wires the connection, the handlers run with the server of \<open>net\<close>
  as \<open>this\<close>: the data handler throws at \<open>this._logger\<close> and the end handler at
  \<open>this._onDebuggingStopped\<close>. The listener is on the bus and is never called, \<open>close\<close>
  is never called, and the channel still holds the slot.
\<close>

theorem stopped_then_end_notifies_nobody:
  "listenersOf DebuggingStopped
      (instances (started 1 (onDebuggingStopped 1 7 initialWorld)) 1) = [7]
   \<and> socketData decodePacket NetServer [1, 0, 0, 0]
        (started 1 (onDebuggingStopped 1 7 initialWorld)) = Inl TypeError
   \<and> socketEnd NetServer (started 1 (onDebuggingStopped 1 7 initialWorld)) = Inl TypeError
   \<and> wired decodePacket 1 [Data [1, 0, 0, 0], End]
        (started 1 (onDebuggingStopped 1 7 initialWorld))
       = ([TypeError, TypeError], started 1 (onDebuggingStopped 1 7 initialWorld))
   \<and> invoked (snd (wired decodePacket 1 [Data [1, 0, 0, 0], End]
        (started 1 (onDebuggingStopped 1 7 initialWorld)))) = []
   \<and> closing (snd (wired decodePacket 1 [Data [1, 0, 0, 0], End]
        (started 1 (onDebuggingStopped 1 7 initialWorld)))) = []
   \<and> s_activeInstance (snd (wired decodePacket 1 [Data [1, 0, 0, 0], End]
        (started 1 (onDebuggingStopped 1 7 initialWorld)))) = Some 1"
  by (simp add: channel_defs decodePacket_frames)

text \<open>Were the handlers called on the channel, the claim would fail the other way. The
  flag \<open>_isClosed\<close> is set only in the callback of \<open>server.close\<close>, which the server runs
  once every connection is closed; so after the frame the flag is still false, the end of
  the connection fires the event again, and the listener is called twice.\<close>

lemma stopped_then_end_on_channel:
  "connection decodePacket 1 (Channel 1) [Data [1, 0, 0, 0], End]
      (started 1 (onDebuggingStopped 1 7 initialWorld))
     = ([], snd (connection decodePacket 1 (Channel 1) [Data [1, 0, 0, 0], End]
                  (started 1 (onDebuggingStopped 1 7 initialWorld))))
   \<and> invoked (snd (connection decodePacket 1 (Channel 1) [Data [1, 0, 0, 0], End]
      (started 1 (onDebuggingStopped 1 7 initialWorld)))) = [(7, [Array []]), (7, [Array []])]
   \<and> closing (snd (connection decodePacket 1 (Channel 1) [Data [1, 0, 0, 0], End]
      (started 1 (onDebuggingStopped 1 7 initialWorld)))) = [1, 1]"
  by (simp add: channel_defs decodePacket_frames)

lemma handleDebuggingStopped_twice:
  assumes "\<not> isClosed (instances w this)" and "serverSocket (instances w this) = Server"
  shows "invoked (handleDebuggingStopped this (handleDebuggingStopped this w)) =
           invoked w
           @ map (\<lambda>l. (l, [Array []])) (listenersOf DebuggingStopped (instances w this))
           @ map (\<lambda>l. (l, [Array []])) (listenersOf DebuggingStopped (instances w this))"
  using assms
  by (simp add: handleDebuggingStopped_def close_def fireEvent_def emit_def Let_def)

text \<open>The second listing does what the claim says: its \<open>close\<close> sets \<open>_isClosed\<close> before
  it returns. The DebuggingStopped frame sends the stop request and closes the server;
  the end of the connection finds the channel closed and does nothing.\<close>

lemma stopped_then_end_second_listing:
  "sent (run decodePacket 1 [Data [1, 0, 0, 0], End] (started2 1 ''Calc.cs'' initialWorld))
     = [DebugTestStop ''Calc.cs'']
   \<and> closing (run decodePacket 1 [Data [1, 0, 0, 0], End]
        (started2 1 ''Calc.cs'' initialWorld)) = [1]
   \<and> run decodePacket 1 [Data [1, 0, 0, 0], End] (started2 1 ''Calc.cs'' initialWorld)
       = run decodePacket 1 [Data [1, 0, 0, 0]] (started2 1 ''Calc.cs'' initialWorld)
   \<and> isClosed (instances (run decodePacket 1 [Data [1, 0, 0, 0]]
        (started2 1 ''Calc.cs'' initialWorld)) 1)
   \<and> s_activeInstance (run decodePacket 1 [Data [1, 0, 0, 0]]
        (started2 1 ''Calc.cs'' initialWorld)) = None"
  by (simp add: channel_defs decodePacket_frames)

lemma onDebuggingStopped2_closed:
  "isClosed (instances w this) \<Longrightarrow> onDebuggingStopped2 this w = (None, w)"
  by (simp add: onDebuggingStopped2_def)

lemma close2_sets_flag:
  "isClosed (instances (snd (close2 this w)) this)"
  by (simp add: close2_def updateInstance_def Let_def split: socketRef.splits)

text \<open>
  Claim C3, evaluated. Channel 1 has started and holds the slot. Channel 2 starts; the
  server of channel 1 closes without an error. The callback of \<open>close\<close> rejects the
  promise in this case, so the steps of \<open>start\<close> that install channel 2 and bind it are
  skipped: \<open>start\<close> is rejected and the slot is empty.
\<close>

theorem second_start_leaves_slot_empty:
  "s_activeInstance (started 1 initialWorld) = Some 1
   \<and> fst (start 2 \<lparr>previousClosed = Some None, deleteIfExists = Returns (),
                    serverEvents = [Listening]\<rparr> (started 1 initialWorld)) = Rejected NoReason
   \<and> s_activeInstance
        (snd (start 2 \<lparr>previousClosed = Some None, deleteIfExists = Returns (),
                        serverEvents = [Listening]\<rparr> (started 1 initialWorld))) = None
   \<and> serverSocket (instances
        (snd (start 2 \<lparr>previousClosed = Some None, deleteIfExists = Returns (),
                        serverEvents = [Listening]\<rparr> (started 1 initialWorld))) 2) = Undefined"
  by (simp add: channel_defs)

text \<open>What holds of the slot: \<open>close\<close> on the holder clears it, and a \<open>start\<close> that
  resolves leaves the started instance in it.\<close>

lemma close_clears_slot:
  "s_activeInstance w = Some this \<Longrightarrow> s_activeInstance (snd (close this w)) = None"
  by (simp add: close_def Let_def split: socketRef.splits)

lemma listening_slot:
  "s_activeInstance (snd (listening es isStarted p w)) = s_activeInstance w"
  by (induction es isStarted p w rule: listening.induct) (simp_all add: appendLine_def)

lemma startThen_slot:
  "s_activeInstance (snd (startThen this env w)) = Some this"
  by (simp add: startThen_def startListening_def listening_slot updateInstance_def Let_def
        split: response.splits)

lemma start_resolved_slot:
  assumes "fst (start this env w) = Resolved"
  shows "s_activeInstance (snd (start this env w)) = Some this"
proof -
  have "\<exists>w1. start this env w = startThen this env w1"
    using assms
    by (auto simp: start_def split: prod.splits promise.splits option.splits)
  then show ?thesis
    by (auto simp: startThen_slot)
qed

text \<open>In the second listing the second channel takes the slot, and the first is closed.\<close>

lemma second_start2_takes_slot:
  "s_activeInstance (started2 1 ''A.cs'' initialWorld) = Some 1
   \<and> s_activeInstance (started2 2 ''B.cs'' (started2 1 ''A.cs'' initialWorld)) = Some 2
   \<and> isClosed (instances (started2 2 ''B.cs'' (started2 1 ''A.cs'' initialWorld)) 1)"
  by (simp add: channel_defs)

text \<open>
  Claim C4, evaluated. Channel 1 has started. \<open>close\<close> hands its callback to the server;
  the server closes without an error and runs it: the promise that \<open>close\<close> returned is
  rejected.
\<close>

theorem close_rejects_on_success:
  "fst (close 1 (started 1 initialWorld)) = AwaitsClose 1
   \<and> fst (closeCallback 1 None (snd (close 1 (started 1 initialWorld)))) = Rejected NoReason
   \<and> fst (closeCallback 1 (Some ''Not running'') (snd (close 1 (started 1 initialWorld))))
       = Resolved"
  by (simp add: channel_defs)

text \<open>The same for every channel that has a server and is not closed.\<close>

lemma close_callback_without_error:
  assumes "\<not> isClosed (instances w this)" and "serverSocket (instances w this) = Server"
  shows "fst (close this w) = AwaitsClose this"
    and "fst (closeCallback this None (snd (close this w))) = Rejected NoReason"
    and "isClosed (instances (snd (closeCallback this None (snd (close this w)))) this)"
  using assms by (simp_all add: close_def closeCallback_def updateInstance_def Let_def)

text \<open>Once the callback has run, a later \<open>close\<close> resolves and changes nothing.\<close>

lemma close_again:
  "isClosed (instances w this) \<Longrightarrow> s_activeInstance w \<noteq> Some this \<Longrightarrow>
     close this w = (Resolved, w)"
  by (simp add: close_def)

text \<open>\<open>close\<close> of the second listing returns without an exception on a started channel,
  and a second call changes nothing.\<close>

lemma close2_twice:
  "fst (close2 1 (started2 1 ''Calc.cs'' initialWorld)) = None
   \<and> close2 1 (snd (close2 1 (started2 1 ''Calc.cs'' initialWorld)))
       = (None, snd (close2 1 (started2 1 ''Calc.cs'' initialWorld)))"
  by (simp add: channel_defs)

subsection \<open>Listeners\<close>

text \<open>
  Claim C6, evaluated. Two listeners are registered with \<open>onProcessLaunched\<close> on a channel
  of the first listing, first 5 and then 6; the channel starts and its connection
  delivers the ProcessLaunched frame for the process 4242. As \<open>start\<close> wires the
  connection, the data handler runs with the server of \<open>net\<close> as \<open>this\<close> and throws at
  \<open>this._logger\<close>, before \<open>_fireEvent\<close>: both listeners are on the bus, neither is
  called, and nothing is logged.
\<close>

theorem processLaunched_listener_not_called:
  "listenersOf ProcessLaunched
      (instances (started 1 (onProcessLaunched 1 6 (onProcessLaunched 1 5 initialWorld))) 1)
     = [5, 6]
   \<and> socketData decodePacket NetServer [0, 0, 0, 0, 0x92, 0x10, 0, 0]
        (started 1 (onProcessLaunched 1 6 (onProcessLaunched 1 5 initialWorld))) = Inl TypeError
   \<and> wired decodePacket 1 [Data [0, 0, 0, 0, 0x92, 0x10, 0, 0]]
        (started 1 (onProcessLaunched 1 6 (onProcessLaunched 1 5 initialWorld)))
       = ([TypeError], started 1 (onProcessLaunched 1 6 (onProcessLaunched 1 5 initialWorld)))
   \<and> invoked (snd (wired decodePacket 1 [Data [0, 0, 0, 0, 0x92, 0x10, 0, 0]]
        (started 1 (onProcessLaunched 1 6 (onProcessLaunched 1 5 initialWorld))))) = []
   \<and> logger (snd (wired decodePacket 1 [Data [0, 0, 0, 0, 0x92, 0x10, 0, 0]]
        (started 1 (onProcessLaunched 1 6 (onProcessLaunched 1 5 initialWorld))))) = []"
  by (simp add: channel_defs decodePacket_frames)

text \<open>Were the data handler called on the channel, the listeners would be called in the
  order they were registered, each with one argument: the array that holds the process
  id, not the number, since \<open>_fireEvent\<close> gives its array of arguments to \<open>emit\<close> as one
  argument.\<close>

lemma processLaunched_on_channel:
  "socketData decodePacket (Channel 1) [0, 0, 0, 0, 0x92, 0x10, 0, 0]
      (started 1 (onProcessLaunched 1 6 (onProcessLaunched 1 5 initialWorld)))
     = Inr ((started 1 (onProcessLaunched 1 6 (onProcessLaunched 1 5 initialWorld)))
             \<lparr>logger := [''Started debugging process #4242.''],
              invoked := [(5, [Array [Number 4242]]), (6, [Array [Number 4242]])]\<rparr>)"
  by (simp add: channel_defs decodePacket_frames toString_int_4242)

lemma socketData_Channel_processLaunched:
  assumes "decode buffer = Some (ProcessLaunchedEvent targetProcessId)"
  shows "\<exists>w1. socketData decode (Channel this) buffer w = Inr w1
            \<and> invoked w1 = invoked w @ map (\<lambda>l. (l, [Array [Number targetProcessId]]))
                                          (listenersOf ProcessLaunched (instances w this))"
  using assms
  by (simp add: socketData_def appendLineOn_def fireEventOn_def fireEvent_def emit_def
        appendLine_def)

lemma listenersOf_onProcessLaunched:
  "listenersOf ProcessLaunched (instances (onProcessLaunched this listener w) this) =
     listenersOf ProcessLaunched (instances w this) @ [listener]"
  by (simp add: onProcessLaunched_def addListener_def updateInstance_def listenersOf_def)

text \<open>The disposable takes one registration of its listener off the bus, the one added
  last, and leaves the other listeners in their order.\<close>

lemma dispose_removes_registration:
  "eventBus (instances (dispose this event listener
      (addListener this event listener w)) this) = eventBus (instances w this)"
  by (simp add: dispose_def addListener_def updateInstance_def removeLast_def)

lemma dispose_keeps_others:
  "listener \<noteq> other \<Longrightarrow>
     listenersOf event (instances (dispose this event listener
        (addListener this event other (addListener this event listener w))) this)
     = listenersOf event (instances w this) @ [other]"
  by (simp add: dispose_def addListener_def updateInstance_def removeLast_def listenersOf_def)

subsection \<open>Binding\<close>

lemma listening_settled:
  "p \<noteq> Pending \<Longrightarrow> fst (listening es isStarted p w) = p"
  by (induction es isStarted p w rule: listening.induct) (simp_all add: settle_def)

lemma listening_started_log:
  "logger (snd (listening es True p w)) =
     logger w @ map (\<lambda>m. ''Warning: Communications error on debugger event channel. '' @ m)
                  (errorMessages es)"
  by (induction es "True" p w rule: listening.induct) (simp_all add: appendLine_def)

lemma listening_log:
  "logger (snd (listening es False p w)) =
     logger w @ map (\<lambda>m. ''Warning: Communications error on debugger event channel. '' @ m)
                  (errorMessages (dropWhile (\<lambda>e. e \<noteq> Listening) es))"
proof (induction es arbitrary: p)
  case Nil
  show ?case by simp
next
  case (Cons e es)
  show ?case
    by (cases e) (simp_all add: Cons.IH listening_started_log)
qed

lemma startListening_promise:
  "fst (startListening es w) =
     (case es of [] \<Rightarrow> Pending
               | ErrorEvent message # _ \<Rightarrow> Rejected (Message message)
               | Listening # _ \<Rightarrow> Resolved)"
  by (simp add: startListening_def settle_def listening_settled
        split: list.splits serverEvent.splits)

lemma logger_clearActiveInstance:
  "logger (snd (clearActiveInstance w)) = logger w"
  by (simp add: clearActiveInstance_def close_def Let_def split: option.splits socketRef.splits)

lemma startThen_binds:
  assumes "deleteIfExists env = Returns ()"
  shows "\<exists>w1. logger w1 = logger w \<and> startThen this env w = startListening (serverEvents env) w1"
proof -
  let ?w1 = "updateInstance this (\<lambda>l. l\<lparr>serverSocket := Server\<rparr>)
               (w\<lparr>s_activeInstance := Some this\<rparr>)"
  have "logger ?w1 = logger w"
    by (simp add: updateInstance_def)
  moreover have "startThen this env w = startListening (serverEvents env) ?w1"
    using assms by (simp add: startThen_def)
  ultimately show ?thesis by blast
qed

lemma binds_start:
  assumes "binds env w"
  shows "\<exists>w1. logger w1 = logger w \<and> start this env w = startListening (serverEvents env) w1"
proof -
  obtain p w0 where c: "clearActiveInstance w = (p, w0)"
    by (cases "clearActiveInstance w")
  have l0: "logger w0 = logger w"
    using logger_clearActiveInstance [of w] by (simp add: c)
  have d: "deleteIfExists env = Returns ()"
    using assms by (simp add: binds_def)
  show ?thesis
  proof (cases p)
    case Resolved
    then have "start this env w = startThen this env w0"
      by (simp add: start_def c)
    with startThen_binds [OF d, of w0 this] l0 show ?thesis by simp
  next
    case (AwaitsClose previous)
    with assms c obtain err where e: "previousClosed env = Some (Some err)"
      by (auto simp: binds_def split: option.splits)
    let ?w2 = "snd (closeCallback previous (Some err) w0)"
    have "start this env w = startThen this env ?w2"
      by (simp add: start_def c AwaitsClose e closeCallback_def)
    moreover have "logger ?w2 = logger w"
      by (simp add: closeCallback_def updateInstance_def l0)
    ultimately show ?thesis
      using startThen_binds [OF d, of ?w2 this] by simp
  next
    case (Rejected r)
    with assms c show ?thesis by (simp add: binds_def)
  next
    case Pending
    with assms c show ?thesis by (simp add: binds_def)
  qed
qed

text \<open>
  Claim C8. Take a call of \<open>start\<close> that gets as far as \<open>_startListening\<close>. Its promise is
  settled by the first event of the server: an error rejects it with the message of the
  error, the report that the server listens resolves it, and nothing settles it a second
  time. An error after that report leaves the promise resolved and is logged as a
  warning; an error before it is not logged.
\<close>

theorem start_bind_failure:
  assumes "binds env w"
  shows "fst (start this env w) =
           (case serverEvents env of
              [] \<Rightarrow> Pending
            | ErrorEvent message # _ \<Rightarrow> Rejected (Message message)
            | Listening # _ \<Rightarrow> Resolved)
       \<and> logger (snd (start this env w)) =
           logger w @ map (\<lambda>m. ''Warning: Communications error on debugger event channel. '' @ m)
                        (errorMessages (dropWhile (\<lambda>e. e \<noteq> Listening) (serverEvents env)))"
proof -
  from binds_start [OF assms] obtain w1 where l: "logger w1 = logger w"
    and s: "start this env w = startListening (serverEvents env) w1"
    by blast
  have "logger (snd (startListening (serverEvents env) w1)) =
      logger w @ map (\<lambda>m. ''Warning: Communications error on debugger event channel. '' @ m)
                        (errorMessages (dropWhile (\<lambda>e. e \<noteq> Listening) (serverEvents env)))"
    by (simp add: startListening_def listening_log l)
  then show ?thesis
    by (simp add: s startListening_promise)
qed

theorem start_bind_failure_witness:
  "binds \<lparr>previousClosed = None, deleteIfExists = Returns (),
          serverEvents = [ErrorEvent ''EADDRINUSE'']\<rparr> initialWorld
   \<and> start 1 \<lparr>previousClosed = None, deleteIfExists = Returns (),
          serverEvents = [ErrorEvent ''EADDRINUSE'']\<rparr> initialWorld
       = (Rejected (Message ''EADDRINUSE''), started 1 initialWorld)
   \<and> binds \<lparr>previousClosed = None, deleteIfExists = Returns (),
          serverEvents = [Listening, ErrorEvent ''EPIPE'']\<rparr> initialWorld
   \<and> fst (start 1 \<lparr>previousClosed = None, deleteIfExists = Returns (),
          serverEvents = [Listening, ErrorEvent ''EPIPE'']\<rparr> initialWorld) = Resolved
   \<and> logger (snd (start 1 \<lparr>previousClosed = None, deleteIfExists = Returns (),
          serverEvents = [Listening, ErrorEvent ''EPIPE'']\<rparr> initialWorld))
       = [''Warning: Communications error on debugger event channel. EPIPE'']"
proof -
  have b1: "binds \<lparr>previousClosed = None, deleteIfExists = Returns (),
          serverEvents = [ErrorEvent ''EADDRINUSE'']\<rparr> initialWorld"
    by (simp add: binds_def clearActiveInstance_def initialWorld_def)
  have b2: "binds \<lparr>previousClosed = None, deleteIfExists = Returns (),
          serverEvents = [Listening, ErrorEvent ''EPIPE'']\<rparr> initialWorld"
    by (simp add: binds_def clearActiveInstance_def initialWorld_def)
  have s: "snd (start 1 \<lparr>previousClosed = None, deleteIfExists = Returns (),
          serverEvents = [ErrorEvent ''EADDRINUSE'']\<rparr> initialWorld) = started 1 initialWorld"
    by (simp add: channel_defs)
  have l: "logger initialWorld = []"
    by (simp add: initialWorld_def)
  from start_bind_failure [OF b1, of 1] start_bind_failure [OF b2, of 1] b1 b2 s l
  show ?thesis
    by (simp add: prod_eq_iff)
qed

end
